theory Spec2Isabelle
  imports Main "HOL-Library.AList"
begin

section \<open>Python values, exceptions and the file system\<close>

text \<open>
  The inventory of \<^verbatim>\<open>inventory_system.py\<close> is a Python object with two attributes,
  \<^verbatim>\<open>stock_data\<close> and \<^verbatim>\<open>logs\<close>. Python is dynamically typed: every argument of a
  method can be any value, and \<^verbatim>\<open>load_data\<close> stores whatever \<^verbatim>\<open>json.load\<close> returns,
  so \<^verbatim>\<open>stock_data\<close> itself can be any JSON value. The values of the model are the
  values JSON can denote, without floating-point numbers: a JSON number with a fraction
  or an exponent is outside this model. A dictionary is an association list in insertion
  order; its keys are strings, since \<^verbatim>\<open>add_item\<close> only inserts \<^verbatim>\<open>str\<close> keys and a JSON
  object only has string keys.
\<close>

datatype pyval =
    PNone
  | PBool bool
  | PInt int
  | PStr string
  | PList "pyval list"
  | PDict "(string \<times> pyval) list"

text \<open>
  The exceptions the code can meet. \<^verbatim>\<open>IOError\<close> is Python's alias of \<^verbatim>\<open>OSError\<close>;
  \<^verbatim>\<open>FileNotFoundError\<close> is a subclass of \<^verbatim>\<open>OSError\<close>; \<^verbatim>\<open>JSONDecodeError\<close> and
  \<^verbatim>\<open>UnicodeDecodeError\<close> are subclasses of \<^verbatim>\<open>ValueError\<close>.
\<close>

datatype exc =
    AttributeError
  | TypeError
  | KeyError
  | ValueError
  | OSError
  | FileNotFoundError
  | JSONDecodeError
  | UnicodeDecodeError

text \<open>\<open>isa e c\<close>: an \<^verbatim>\<open>except c\<close> clause catches the raised exception \<open>e\<close>.\<close>

fun isa :: "exc \<Rightarrow> exc \<Rightarrow> bool" where
  "isa FileNotFoundError OSError = True"
| "isa JSONDecodeError ValueError = True"
| "isa UnicodeDecodeError ValueError = True"
| "isa e c = (e = c)"

text \<open>
  What a path holds when it is opened for reading with \<^verbatim>\<open>encoding='utf-8'\<close> and
  handed to \<^verbatim>\<open>json.load\<close>: no file; a file that cannot be opened or read (a
  directory, a permission); bytes that are not UTF-8; text that is not JSON; or a JSON
  document, identified with the value \<^verbatim>\<open>json.load\<close> returns for it.
\<close>

datatype fnode =
    Absent
  | Unreadable
  | Undecodable
  | Malformed
  | Doc pyval

record world =
  files :: "string \<Rightarrow> fnode"
  writable :: "string \<Rightarrow> bool"

record inventory =
  stock_data :: pyval
  logs :: "string list"

text \<open>\<^verbatim>\<open>__init__\<close>: an empty dictionary and an empty log.\<close>

definition init :: inventory where
  "init = \<lparr>stock_data = PDict [], logs = []\<rparr>"

subsection \<open>The Python operators the methods use\<close>

text \<open>Truth value testing, as \<^verbatim>\<open>not x\<close> sees it.\<close>

fun truthy :: "pyval \<Rightarrow> bool" where
  "truthy PNone = False"
| "truthy (PBool b) = b"
| "truthy (PInt n) = (n \<noteq> 0)"
| "truthy (PStr s) = (s \<noteq> [])"
| "truthy (PList xs) = (xs \<noteq> [])"
| "truthy (PDict d) = (d \<noteq> [])"

text \<open>\<^verbatim>\<open>isinstance(v, str)\<close>.\<close>

fun is_str :: "pyval \<Rightarrow> bool" where
  "is_str (PStr s) = True"
| "is_str v = False"

fun str_of :: "pyval \<Rightarrow> string" where
  "str_of (PStr s) = s"
| "str_of v = []"

text \<open>
  \<^verbatim>\<open>isinstance(v, int)\<close>. \<^verbatim>\<open>bool\<close> is a subclass of \<^verbatim>\<open>int\<close> in Python:
  \<^verbatim>\<open>True\<close> is an instance of \<^verbatim>\<open>int\<close> and behaves as 1, \<^verbatim>\<open>False\<close> as 0.
\<close>

fun is_int :: "pyval \<Rightarrow> bool" where
  "is_int (PInt n) = True"
| "is_int (PBool b) = True"
| "is_int v = False"

fun int_of :: "pyval \<Rightarrow> int" where
  "int_of (PInt n) = n"
| "int_of (PBool b) = (if b then 1 else 0)"
| "int_of v = 0"

text \<open>
  \<^verbatim>\<open>v + q\<close>, \<^verbatim>\<open>v - q\<close>, \<^verbatim>\<open>v <= n\<close> and \<^verbatim>\<open>v < n\<close> where the right operand is an
  instance of \<^verbatim>\<open>int\<close> (every call site has checked it, or it is the literal 0): the
  result is an integer when \<open>v\<close> is an instance of \<^verbatim>\<open>int\<close>, and \<^verbatim>\<open>TypeError\<close> for
  \<^verbatim>\<open>None\<close>, a string, a list or a dictionary.
\<close>

definition py_add_int :: "pyval \<Rightarrow> int \<Rightarrow> exc + pyval" where
  "py_add_int v q = (if is_int v then Inr (PInt (int_of v + q)) else Inl TypeError)"

definition py_sub_int :: "pyval \<Rightarrow> int \<Rightarrow> exc + pyval" where
  "py_sub_int v q = (if is_int v then Inr (PInt (int_of v - q)) else Inl TypeError)"

definition py_le_int :: "pyval \<Rightarrow> int \<Rightarrow> exc + bool" where
  "py_le_int v n = (if is_int v then Inr (int_of v \<le> n) else Inl TypeError)"

definition py_lt_int :: "pyval \<Rightarrow> int \<Rightarrow> exc + bool" where
  "py_lt_int v n = (if is_int v then Inr (int_of v < n) else Inl TypeError)"

text \<open>\<^verbatim>\<open>d.get(k, default)\<close> on a dictionary.\<close>

definition dict_get :: "(string \<times> pyval) list \<Rightarrow> string \<Rightarrow> pyval \<Rightarrow> pyval" where
  "dict_get d k dflt = (case map_of d k of None \<Rightarrow> dflt | Some v \<Rightarrow> v)"

text \<open>
  \<^verbatim>\<open>t in s\<close> for two strings: \<open>t\<close> occurs in \<open>s\<close> as a contiguous substring.
\<close>

fun is_substring :: "string \<Rightarrow> string \<Rightarrow> bool" where
  "is_substring t [] = (t = [])"
| "is_substring t (c # cs) = (take (length t) (c # cs) = t \<or> is_substring t cs)"

text \<open>
  \<^verbatim>\<open>k in x\<close> for a string \<open>k\<close>: key membership on a dictionary, element membership
  on a list, substring on a string, and \<^verbatim>\<open>TypeError\<close> (argument is not iterable) on
  \<^verbatim>\<open>None\<close>, a boolean or an integer.
\<close>

fun py_contains :: "pyval \<Rightarrow> string \<Rightarrow> exc + bool" where
  "py_contains (PDict d) k = Inr (map_of d k \<noteq> None)"
| "py_contains (PList xs) k = Inr (PStr k \<in> set xs)"
| "py_contains (PStr s) k = Inr (is_substring k s)"
| "py_contains v k = Inl TypeError"

text \<open>
  \<^verbatim>\<open>x[k]\<close> for a string \<open>k\<close>: the value on a dictionary (\<^verbatim>\<open>KeyError\<close> when the key
  is missing), \<^verbatim>\<open>TypeError\<close> on a list or a string (indices must be integers) and on
  the values that are not subscriptable.
\<close>

fun py_getitem :: "pyval \<Rightarrow> string \<Rightarrow> exc + pyval" where
  "py_getitem (PDict d) k = (case map_of d k of None \<Rightarrow> Inl KeyError | Some v \<Rightarrow> Inr v)"
| "py_getitem v k = Inl TypeError"

text \<open>
  \<^verbatim>\<open>str(n)\<close> for an integer, and \<^verbatim>\<open>f"{qty}"\<close> for an instance of \<^verbatim>\<open>int\<close>
  (a boolean prints as \<^verbatim>\<open>True\<close> or \<^verbatim>\<open>False\<close>). Integers are unbounded and the
  conversion is total: the limit some interpreters put on the number of digits of an
  integer they convert to text is not modelled.
\<close>

fun digits :: "nat \<Rightarrow> string" where
  "digits n = (if n < 10 then [''0123456789'' ! n]
               else digits (n div 10) @ [''0123456789'' ! (n mod 10)])"

declare digits.simps [simp del]

definition str_int :: "int \<Rightarrow> string" where
  "str_int n = (if n < 0 then CHR ''-'' # digits (nat (- n)) else digits (nat n))"

fun py_str :: "pyval \<Rightarrow> string" where
  "py_str (PBool b) = (if b then ''True'' else ''False'')"
| "py_str (PInt n) = str_int n"
| "py_str (PStr s) = s"
| "py_str v = []"

section \<open>The methods of \<^verbatim>\<open>InventorySystem\<close>\<close>

text \<open>
  A method takes the inventory and returns the inventory it leaves behind together with
  its outcome: \<open>Inr\<close> the returned value, or \<open>Inl\<close> the exception that leaves the method
  uncaught. The lines printed on the console are not part of the model.
\<close>

subsection \<open>\<^verbatim>\<open>add_item\<close>\<close>

text \<open>
  \<open>now\<close> is the text of \<^verbatim>\<open>datetime.now()\<close> at the call. On a \<^verbatim>\<open>stock_data\<close> that is
  not a dictionary, \<^verbatim>\<open>self.stock_data.get\<close> raises \<^verbatim>\<open>AttributeError\<close>.
\<close>

definition log_message :: "string \<Rightarrow> pyval \<Rightarrow> string \<Rightarrow> string" where
  "log_message now qty item = now @ '': Added '' @ py_str qty @ '' of '' @ item"

definition add_item :: "string \<Rightarrow> inventory \<Rightarrow> pyval \<Rightarrow> pyval \<Rightarrow> inventory \<times> (exc + bool)" where
  "add_item now s item qty =
     (if \<not> truthy item \<or> \<not> is_str item then (s, Inr False)
      else if \<not> is_int qty \<or> int_of qty \<le> 0 then (s, Inr False)
      else (case stock_data s of
              PDict d \<Rightarrow>
                (case py_add_int (dict_get d (str_of item) (PInt 0)) (int_of qty) of
                   Inl e \<Rightarrow> (s, Inl e)
                 | Inr v \<Rightarrow>
                     (s\<lparr>stock_data := PDict (AList.update (str_of item) v d),
                        logs := logs s @ [log_message now qty (str_of item)]\<rparr>,
                      Inr True))
            | _ \<Rightarrow> (s, Inl AttributeError)))"

subsection \<open>\<^verbatim>\<open>remove_item\<close>\<close>

text \<open>
  The body of the \<^verbatim>\<open>try\<close> block. \<^verbatim>\<open>self.stock_data[item] -= qty\<close> reads the item,
  subtracts and stores the difference; the store only happens on a dictionary, since
  reading fails on everything else.
\<close>

definition remove_body :: "inventory \<Rightarrow> string \<Rightarrow> int \<Rightarrow> inventory \<times> (exc + bool)" where
  "remove_body s item qty =
     (case py_contains (stock_data s) item of
        Inl e \<Rightarrow> (s, Inl e)
      | Inr False \<Rightarrow> (s, Inr False)
      | Inr True \<Rightarrow>
          (case py_getitem (stock_data s) item of
             Inl e \<Rightarrow> (s, Inl e)
           | Inr v \<Rightarrow>
               (case py_sub_int v qty of
                  Inl e \<Rightarrow> (s, Inl e)
                | Inr v' \<Rightarrow>
                    (case stock_data s of
                       PDict d \<Rightarrow>
                         (let d1 = AList.update item v' d;
                              s1 = s\<lparr>stock_data := PDict d1\<rparr>
                          in case py_le_int v' 0 of
                               Inl e \<Rightarrow> (s1, Inl e)
                             | Inr True \<Rightarrow> (s1\<lparr>stock_data := PDict (AList.delete item d1)\<rparr>, Inr True)
                             | Inr False \<Rightarrow> (s1, Inr True))
                     | _ \<Rightarrow> (s, Inl TypeError)))))"

definition remove_item :: "inventory \<Rightarrow> pyval \<Rightarrow> pyval \<Rightarrow> inventory \<times> (exc + bool)" where
  "remove_item s item qty =
     (if \<not> is_str item \<or> \<not> is_int qty then (s, Inr False)
      else if int_of qty \<le> 0 then (s, Inr False)
      else (case remove_body s (str_of item) (int_of qty) of
              (s', Inl e) \<Rightarrow>
                (if isa e KeyError then (s', Inr False)
                 else if isa e TypeError then (s', Inr False)
                 else (s', Inl e))
            | (s', Inr b) \<Rightarrow> (s', Inr b)))"

subsection \<open>\<^verbatim>\<open>get_qty\<close>\<close>

definition get_qty :: "inventory \<Rightarrow> pyval \<Rightarrow> exc + pyval" where
  "get_qty s item =
     (if \<not> is_str item then Inr (PInt 0)
      else (case stock_data s of
              PDict d \<Rightarrow> Inr (dict_get d (str_of item) (PInt 0))
            | _ \<Rightarrow> Inl AttributeError))"

subsection \<open>\<^verbatim>\<open>load_data\<close> and \<^verbatim>\<open>save_data\<close>\<close>

text \<open>\<^verbatim>\<open>open(file, 'r', encoding='utf-8')\<close> followed by \<^verbatim>\<open>json.load(f)\<close>.\<close>

definition read_json :: "world \<Rightarrow> string \<Rightarrow> exc + pyval" where
  "read_json w file =
     (case files w file of
        Absent \<Rightarrow> Inl FileNotFoundError
      | Unreadable \<Rightarrow> Inl OSError
      | Undecodable \<Rightarrow> Inl UnicodeDecodeError
      | Malformed \<Rightarrow> Inl JSONDecodeError
      | Doc v \<Rightarrow> Inr v)"

text \<open>
  The \<^verbatim>\<open>except\<close> clauses are tried in the order of the source:
  \<^verbatim>\<open>FileNotFoundError\<close>, \<^verbatim>\<open>json.JSONDecodeError\<close>, \<^verbatim>\<open>IOError\<close>.
\<close>

definition load_data :: "world \<Rightarrow> inventory \<Rightarrow> string \<Rightarrow> inventory \<times> (exc + bool)" where
  "load_data w s file =
     (case read_json w file of
        Inr v \<Rightarrow> (s\<lparr>stock_data := v\<rparr>, Inr True)
      | Inl e \<Rightarrow>
          (if isa e FileNotFoundError then (s\<lparr>stock_data := PDict []\<rparr>, Inr False)
           else if isa e JSONDecodeError then (s, Inr False)
           else if isa e OSError then (s, Inr False)
           else (s, Inl e)))"

text \<open>
  \<^verbatim>\<open>open(file, 'w', encoding='utf-8')\<close> raises an \<^verbatim>\<open>OSError\<close> on a path that cannot be
  written. Otherwise \<^verbatim>\<open>json.dump\<close> writes the document of \<^verbatim>\<open>stock_data\<close>: every value
  of the model is serialisable, and the document denotes the value written.
\<close>

definition write_json :: "world \<Rightarrow> string \<Rightarrow> pyval \<Rightarrow> exc + world" where
  "write_json w file v =
     (if writable w file then Inr (w\<lparr>files := (files w)(file := Doc v)\<rparr>)
      else Inl OSError)"

definition save_data :: "world \<Rightarrow> inventory \<Rightarrow> string \<Rightarrow> world \<times> (exc + bool)" where
  "save_data w s file =
     (case write_json w file (stock_data s) of
        Inr w' \<Rightarrow> (w', Inr True)
      | Inl e \<Rightarrow> (if isa e OSError then (w, Inr False) else (w, Inl e)))"

subsection \<open>\<^verbatim>\<open>print_data\<close>\<close>

text \<open>
  The report is printed, not returned, so only the exceptions of the method are
  modelled. \<^verbatim>\<open>f"{qty:5}"\<close> formats an instance of \<^verbatim>\<open>int\<close> or a string, and raises
  \<^verbatim>\<open>TypeError\<close> (unsupported format string) for \<^verbatim>\<open>None\<close>, a list or a dictionary.
  The keys of a dictionary are distinct strings, so \<^verbatim>\<open>sorted\<close> orders the items by key
  alone and never compares two quantities; the order only decides the order of the lines.
\<close>

fun format_qty :: "pyval \<Rightarrow> exc + unit" where
  "format_qty (PInt n) = Inr ()"
| "format_qty (PBool b) = Inr ()"
| "format_qty (PStr s) = Inr ()"
| "format_qty v = Inl TypeError"

fun print_loop :: "(string \<times> pyval) list \<Rightarrow> exc + unit" where
  "print_loop [] = Inr ()"
| "print_loop ((item, qty) # rest) =
     (case format_qty qty of Inl e \<Rightarrow> Inl e | Inr _ \<Rightarrow> print_loop rest)"

definition print_data :: "inventory \<Rightarrow> exc + unit" where
  "print_data s =
     (if \<not> truthy (stock_data s) then Inr ()
      else (case stock_data s of
              PDict d \<Rightarrow> print_loop d
            | _ \<Rightarrow> Inl AttributeError))"

subsection \<open>\<^verbatim>\<open>check_low_items\<close>\<close>

fun low_loop :: "(string \<times> pyval) list \<Rightarrow> int \<Rightarrow> string list \<Rightarrow> exc + string list" where
  "low_loop [] t result = Inr result"
| "low_loop ((item, qty) # rest) t result =
     (case py_lt_int qty t of
        Inl e \<Rightarrow> Inl e
      | Inr True \<Rightarrow> low_loop rest t (result @ [item])
      | Inr False \<Rightarrow> low_loop rest t result)"

definition check_low_items :: "inventory \<Rightarrow> pyval \<Rightarrow> exc + string list" where
  "check_low_items s threshold =
     (if \<not> is_int threshold \<or> int_of threshold < 0 then Inr []
      else (case stock_data s of
              PDict d \<Rightarrow> low_loop d (int_of threshold) []
            | _ \<Rightarrow> Inl AttributeError))"

section \<open>Sequences of operations\<close>

text \<open>
  A caller's call of a public method. \<open>Add\<close> carries the clock's text at the call.
\<close>

datatype op =
    Add string pyval pyval
  | Remove pyval pyval
  | GetQty pyval
  | CheckLow pyval
  | PrintData
  | Load string
  | Save string

fun raised :: "exc + 'a \<Rightarrow> exc option" where
  "raised (Inl e) = Some e"
| "raised (Inr v) = None"

fun step :: "op \<Rightarrow> world \<times> inventory \<Rightarrow> (world \<times> inventory) \<times> exc option" where
  "step (Add now item qty) (w, s) = (case add_item now s item qty of (s', r) \<Rightarrow> ((w, s'), raised r))"
| "step (Remove item qty) (w, s) = (case remove_item s item qty of (s', r) \<Rightarrow> ((w, s'), raised r))"
| "step (GetQty item) (w, s) = ((w, s), raised (get_qty s item))"
| "step (CheckLow threshold) (w, s) = ((w, s), raised (check_low_items s threshold))"
| "step PrintData (w, s) = ((w, s), raised (print_data s))"
| "step (Load file) (w, s) = (case load_data w s file of (s', r) \<Rightarrow> ((w, s'), raised r))"
| "step (Save file) (w, s) = (case save_data w s file of (w', r) \<Rightarrow> ((w', s), raised r))"

text \<open>
  The calls are made one after the other; an exception that leaves a method ends the
  sequence there.
\<close>

fun run :: "op list \<Rightarrow> world \<times> inventory \<Rightarrow> (world \<times> inventory) \<times> exc option" where
  "run [] ws = (ws, None)"
| "run (x # xs) ws =
     (case step x ws of
        (ws', None) \<Rightarrow> run xs ws'
      | (ws', Some e) \<Rightarrow> (ws', Some e))"

subsection \<open>The invariant on quantities\<close>

fun positive_qty :: "pyval \<Rightarrow> bool" where
  "positive_qty (PInt n) = (0 < n)"
| "positive_qty v = False"

text \<open>The mapping is a dictionary and every quantity in it is a positive integer.\<close>

fun positive_stock :: "pyval \<Rightarrow> bool" where
  "positive_stock (PDict d) = list_all (\<lambda>(k, v). positive_qty v) d"
| "positive_stock v = False"

text \<open>Every JSON document of the file system is such a mapping.\<close>

definition files_positive :: "world \<Rightarrow> bool" where
  "files_positive w = (\<forall>p v. files w p = Doc v \<longrightarrow> positive_stock v)"

text \<open>The mapping is a dictionary and every quantity in it is an instance of \<^verbatim>\<open>int\<close>.\<close>

fun int_stock :: "pyval \<Rightarrow> bool" where
  "int_stock (PDict d) = list_all (\<lambda>(k, v). is_int v) d"
| "int_stock v = False"

text \<open>A world for the examples: no file anywhere, every path writable.\<close>

definition empty_world :: world where
  "empty_world = \<lparr>files = (\<lambda>p. Absent), writable = (\<lambda>p. True)\<rparr>"

section \<open>Properties\<close>

subsection \<open>Helper facts\<close>

lemma low_loop_filter:
  "list_all (\<lambda>(k, v). is_int v) d \<Longrightarrow>
   low_loop d t acc = Inr (acc @ map fst (filter (\<lambda>(k, v). int_of v < t) d))"
  by (induction d arbitrary: acc) (auto simp: py_lt_int_def)

subsection \<open>\<^verbatim>\<open>add_item\<close>\<close>

text \<open>
  C3. When \<open>item\<close> is not a non-empty string, or \<open>qty\<close> is not an instance of
  \<^verbatim>\<open>int\<close>, or \<open>qty\<close> is at most 0, \<^verbatim>\<open>add_item\<close> returns \<^verbatim>\<open>False\<close> and leaves the
  mapping and the log as they were, whatever the inventory holds. Integer is read as
  Python reads it: \<^verbatim>\<open>isinstance(qty, int)\<close>, which holds of a boolean too.
\<close>

theorem add_item_rejects_invalid:
  assumes "\<not> (is_str item \<and> str_of item \<noteq> []) \<or> \<not> is_int qty \<or> int_of qty \<le> 0"
  shows "add_item now s item qty = (s, Inr False)"
proof -
  have "is_str item \<and> str_of item \<noteq> [] \<longleftrightarrow> truthy item \<and> is_str item"
    by (cases item) auto
  with assms show ?thesis by (auto simp: add_item_def)
qed

theorem add_item_rejects_invalid_witness:
  "add_item ''t'' init (PStr []) (PInt 3) = (init, Inr False)
   \<and> add_item ''t'' init (PInt 123) (PInt 10) = (init, Inr False)
   \<and> add_item ''t'' init (PStr ''banana'') (PInt (-2)) = (init, Inr False)
   \<and> add_item ''t'' init (PStr ''grape'') (PStr ''ten'') = (init, Inr False)"
  using add_item_rejects_invalid [of "PStr []" "PInt 3" "''t''" init]
    add_item_rejects_invalid [of "PInt 123" "PInt 10" "''t''" init]
    add_item_rejects_invalid [of "PStr ''banana''" "PInt (-2)" "''t''" init]
    add_item_rejects_invalid [of "PStr ''grape''" "PStr ''ten''" "''t''" init]
  by simp

text \<open>
  C4. On a mapping whose entry for \<open>item\<close>, if there is one, is an integer: for a
  non-empty string \<open>item\<close> and a positive integer \<open>qty\<close>, \<^verbatim>\<open>add_item\<close> returns
  \<^verbatim>\<open>True\<close>, appends exactly one log entry, and the mapping afterwards is the old one
  with \<open>item\<close> at its old quantity plus \<open>qty\<close> (at \<open>qty\<close> when \<open>item\<close> was absent);
  every other entry is as before.
\<close>

theorem add_item_adds:
  assumes "item \<noteq> []" and "is_int qty" and "0 < int_of qty"
    and "stock_data s = PDict d"
    and "\<forall>v. map_of d item = Some v \<longrightarrow> is_int v"
  shows "add_item now s (PStr item) qty =
           (s\<lparr>stock_data := PDict (AList.update item
                  (PInt ((case map_of d item of None \<Rightarrow> 0 | Some v \<Rightarrow> int_of v) + int_of qty)) d),
              logs := logs s @ [log_message now qty item]\<rparr>, Inr True)
         \<and> map_of (AList.update item
                  (PInt ((case map_of d item of None \<Rightarrow> 0 | Some v \<Rightarrow> int_of v) + int_of qty)) d)
             = (map_of d)(item \<mapsto>
                  PInt ((case map_of d item of None \<Rightarrow> 0 | Some v \<Rightarrow> int_of v) + int_of qty))"
proof -
  have "is_int (dict_get d item (PInt 0))"
    using assms(5) by (auto simp: dict_get_def split: option.splits)
  moreover have "int_of (dict_get d item (PInt 0))
                 = (case map_of d item of None \<Rightarrow> 0 | Some v \<Rightarrow> int_of v)"
    by (simp add: dict_get_def split: option.splits)
  ultimately show ?thesis
    using assms(1-4) by (simp add: add_item_def py_add_int_def update_conv')
qed

theorem add_item_adds_witness:
  "add_item ''t'' \<lparr>stock_data = PDict [(''apple'', PInt 10)], logs = []\<rparr> (PStr ''apple'') (PInt 5)
     = (\<lparr>stock_data = PDict [(''apple'', PInt 15)], logs = [''t: Added 5 of apple'']\<rparr>,
        Inr True)
   \<and> add_item ''t'' \<lparr>stock_data = PDict [(''apple'', PInt 10)], logs = []\<rparr> (PStr ''pear'') (PInt 5)
     = (\<lparr>stock_data = PDict [(''apple'', PInt 10), (''pear'', PInt 5)],
         logs = [''t: Added 5 of pear'']\<rparr>, Inr True)"
  using add_item_adds [of "''apple''" "PInt 5"
      "\<lparr>stock_data = PDict [(''apple'', PInt 10)], logs = []\<rparr>" "[(''apple'', PInt 10)]" "''t''"]
    add_item_adds [of "''pear''" "PInt 5"
      "\<lparr>stock_data = PDict [(''apple'', PInt 10)], logs = []\<rparr>" "[(''apple'', PInt 10)]" "''t''"]
  by (simp add: log_message_def str_int_def digits.simps)

subsection \<open>\<^verbatim>\<open>remove_item\<close>\<close>

text \<open>
  C5. On a mapping that holds \<open>item\<close> with an integer quantity: for a positive integer
  \<open>qty\<close>, \<^verbatim>\<open>remove_item\<close> returns \<^verbatim>\<open>True\<close>; when the difference is at most 0 the
  entry is deleted (removing more than is there is not rejected), otherwise the entry
  holds the difference; every other entry and the log are as before.
\<close>

theorem remove_item_subtracts:
  assumes "is_int qty" and "0 < int_of qty"
    and "stock_data s = PDict d" and "map_of d item = Some v" and "is_int v"
  shows "remove_item s (PStr item) qty =
           (s\<lparr>stock_data := PDict (if int_of v - int_of qty \<le> 0 then AList.delete item d
                                   else AList.update item (PInt (int_of v - int_of qty)) d)\<rparr>,
            Inr True)
         \<and> map_of (if int_of v - int_of qty \<le> 0 then AList.delete item d
                   else AList.update item (PInt (int_of v - int_of qty)) d)
             = (if int_of v - int_of qty \<le> 0 then (map_of d)(item := None)
                else (map_of d)(item \<mapsto> PInt (int_of v - int_of qty)))"
  using assms
  by (simp add: remove_item_def remove_body_def py_sub_int_def py_le_int_def Let_def
      delete_update_same update_conv' delete_conv')

theorem remove_item_subtracts_witness:
  "remove_item \<lparr>stock_data = PDict [(''apple'', PInt 10), (''pear'', PInt 2)], logs = []\<rparr>
       (PStr ''apple'') (PInt 15)
     = (\<lparr>stock_data = PDict [(''pear'', PInt 2)], logs = []\<rparr>, Inr True)
   \<and> remove_item \<lparr>stock_data = PDict [(''apple'', PInt 10), (''pear'', PInt 2)], logs = []\<rparr>
       (PStr ''apple'') (PInt 3)
     = (\<lparr>stock_data = PDict [(''apple'', PInt 7), (''pear'', PInt 2)], logs = []\<rparr>, Inr True)"
  using remove_item_subtracts [of "PInt 15"
      "\<lparr>stock_data = PDict [(''apple'', PInt 10), (''pear'', PInt 2)], logs = []\<rparr>"
      "[(''apple'', PInt 10), (''pear'', PInt 2)]" "''apple''" "PInt 10"]
    remove_item_subtracts [of "PInt 3"
      "\<lparr>stock_data = PDict [(''apple'', PInt 10), (''pear'', PInt 2)], logs = []\<rparr>"
      "[(''apple'', PInt 10), (''pear'', PInt 2)]" "''apple''" "PInt 10"]
  by simp

text \<open>
  C6. On a mapping that does not hold \<open>item\<close>: for a positive integer \<open>qty\<close>,
  \<^verbatim>\<open>remove_item\<close> returns \<^verbatim>\<open>False\<close> and the inventory is unchanged.
\<close>

theorem remove_item_absent:
  assumes "is_int qty" and "0 < int_of qty"
    and "stock_data s = PDict d" and "map_of d item = None"
  shows "remove_item s (PStr item) qty = (s, Inr False)"
  using assms by (simp add: remove_item_def remove_body_def)

theorem remove_item_absent_witness:
  "remove_item \<lparr>stock_data = PDict [(''apple'', PInt 10)], logs = []\<rparr> (PStr ''pear'') (PInt 1)
     = (\<lparr>stock_data = PDict [(''apple'', PInt 10)], logs = []\<rparr>, Inr False)"
  using remove_item_absent [of "PInt 1" "\<lparr>stock_data = PDict [(''apple'', PInt 10)], logs = []\<rparr>"
      "[(''apple'', PInt 10)]" "''pear''"]
  by simp

subsection \<open>\<^verbatim>\<open>load_data\<close> and \<^verbatim>\<open>save_data\<close>\<close>

text \<open>
  In the three failure modes its handlers cover (the file does not exist, the text is
  not JSON, the file cannot be opened or read), \<^verbatim>\<open>load_data\<close> returns \<^verbatim>\<open>False\<close> and
  raises nothing; when the file does not exist, the mapping is moreover reset to the
  empty dictionary, whatever it held, and the log is kept.
\<close>

lemma load_data_failure_modes:
  assumes "files w file = Absent \<or> files w file = Malformed \<or> files w file = Unreadable"
  shows "snd (load_data w s file) = Inr False
         \<and> (files w file = Absent \<longrightarrow> fst (load_data w s file) = s\<lparr>stock_data := PDict []\<rparr>)"
  using assms by (auto simp: load_data_def read_json_def)

lemma load_data_failure_modes_example:
  "load_data empty_world \<lparr>stock_data = PDict [(''apple'', PInt 10)], logs = [''x'']\<rparr> ''inventory.json''
     = (\<lparr>stock_data = PDict [], logs = [''x'']\<rparr>, Inr False)
   \<and> snd (load_data (empty_world\<lparr>files := (\<lambda>p. Malformed)\<rparr>) init ''inventory.json'') = Inr False
   \<and> snd (load_data (empty_world\<lparr>files := (\<lambda>p. Unreadable)\<rparr>) init ''inventory.json'') = Inr False"
  using load_data_failure_modes [of empty_world "''inventory.json''"
      "\<lparr>stock_data = PDict [(''apple'', PInt 10)], logs = [''x'']\<rparr>"]
    load_data_failure_modes [of "empty_world\<lparr>files := (\<lambda>p. Malformed)\<rparr>" "''inventory.json''" init]
    load_data_failure_modes [of "empty_world\<lparr>files := (\<lambda>p. Unreadable)\<rparr>" "''inventory.json''" init]
  by (simp add: empty_world_def prod_eq_iff)

text \<open>
  A successful load apart, \<^verbatim>\<open>load_data\<close> returns \<^verbatim>\<open>False\<close> exactly in those three
  modes, and lets an exception out exactly on a file whose bytes are not UTF-8.
\<close>

lemma load_data_outcomes:
  "(snd (load_data w s file) = Inr True) = (\<exists>v. files w file = Doc v)"
  "(snd (load_data w s file) = Inr False)
     = (files w file = Absent \<or> files w file = Malformed \<or> files w file = Unreadable)"
  "(raised (snd (load_data w s file)) \<noteq> None) = (files w file = Undecodable)"
  by (auto simp: load_data_def read_json_def split: fnode.splits)

text \<open>
  C7. The claim does not hold of the code in every failure mode. A file whose bytes are
  not UTF-8 cannot be read as JSON: reading it raises \<^verbatim>\<open>UnicodeDecodeError\<close>, which is
  neither a \<^verbatim>\<open>FileNotFoundError\<close>, nor a \<^verbatim>\<open>json.JSONDecodeError\<close>, nor an
  \<^verbatim>\<open>IOError\<close>. No handler of \<^verbatim>\<open>load_data\<close> catches it, so on such a file
  \<^verbatim>\<open>load_data\<close> returns nothing and the exception leaves the method; the inventory is
  as it was.
\<close>

theorem load_data_not_utf8_raises:
  assumes "files w file = Undecodable"
  shows "load_data w s file = (s, Inl UnicodeDecodeError)"
  using assms by (simp add: load_data_def read_json_def)

theorem load_data_not_utf8_raises_witness:
  "load_data (empty_world\<lparr>files := (files empty_world)(''inventory.json'' := Undecodable)\<rparr>)
       \<lparr>stock_data = PDict [(''apple'', PInt 10)], logs = []\<rparr> ''inventory.json''
     = (\<lparr>stock_data = PDict [(''apple'', PInt 10)], logs = []\<rparr>, Inl UnicodeDecodeError)"
  using load_data_not_utf8_raises
    [of "empty_world\<lparr>files := (files empty_world)(''inventory.json'' := Undecodable)\<rparr>"
      "''inventory.json''" "\<lparr>stock_data = PDict [(''apple'', PInt 10)], logs = []\<rparr>"]
  by simp

text \<open>
  C10. When the file exists but is not valid JSON, or cannot be read, \<^verbatim>\<open>load_data\<close>
  leaves the inventory exactly as it was (and returns \<^verbatim>\<open>False\<close>).
\<close>

theorem load_data_failure_keeps_mapping:
  assumes "files w file = Malformed \<or> files w file = Unreadable"
  shows "load_data w s file = (s, Inr False)"
  using assms by (auto simp: load_data_def read_json_def)

theorem load_data_failure_keeps_mapping_witness:
  "load_data (empty_world\<lparr>files := (\<lambda>p. Malformed)\<rparr>)
       \<lparr>stock_data = PDict [(''apple'', PInt 10)], logs = []\<rparr> ''inventory.json''
     = (\<lparr>stock_data = PDict [(''apple'', PInt 10)], logs = []\<rparr>, Inr False)
   \<and> load_data (empty_world\<lparr>files := (\<lambda>p. Unreadable)\<rparr>)
       \<lparr>stock_data = PDict [(''apple'', PInt 10)], logs = []\<rparr> ''inventory.json''
     = (\<lparr>stock_data = PDict [(''apple'', PInt 10)], logs = []\<rparr>, Inr False)"
  using load_data_failure_keeps_mapping [of "empty_world\<lparr>files := (\<lambda>p. Malformed)\<rparr>"
      "''inventory.json''" "\<lparr>stock_data = PDict [(''apple'', PInt 10)], logs = []\<rparr>"]
    load_data_failure_keeps_mapping [of "empty_world\<lparr>files := (\<lambda>p. Unreadable)\<rparr>"
      "''inventory.json''" "\<lparr>stock_data = PDict [(''apple'', PInt 10)], logs = []\<rparr>"]
  by simp

text \<open>
  C8. On a writable path, \<^verbatim>\<open>save_data\<close> returns \<^verbatim>\<open>True\<close>, and \<^verbatim>\<open>load_data\<close> from
  the same path right afterwards returns \<^verbatim>\<open>True\<close> and yields the mapping that was
  saved: in the inventory that saved it, which is then unchanged, and in any other
  inventory \<open>t\<close>, a fresh one included.
\<close>

theorem save_then_load:
  assumes "writable w file"
  shows "snd (save_data w s file) = Inr True
         \<and> load_data (fst (save_data w s file)) s file = (s, Inr True)
         \<and> load_data (fst (save_data w s file)) t file = (t\<lparr>stock_data := stock_data s\<rparr>, Inr True)"
  using assms by (simp add: save_data_def write_json_def load_data_def read_json_def)

theorem save_then_load_witness:
  "snd (save_data empty_world \<lparr>stock_data = PDict [(''apple'', PInt 7)], logs = [''x'']\<rparr> ''inventory.json'')
     = Inr True
   \<and> load_data (fst (save_data empty_world
         \<lparr>stock_data = PDict [(''apple'', PInt 7)], logs = [''x'']\<rparr> ''inventory.json''))
       init ''inventory.json''
     = (\<lparr>stock_data = PDict [(''apple'', PInt 7)], logs = []\<rparr>, Inr True)"
  using save_then_load [of empty_world "''inventory.json''"
      "\<lparr>stock_data = PDict [(''apple'', PInt 7)], logs = [''x'']\<rparr>" init]
  by (simp add: empty_world_def init_def)

subsection \<open>\<^verbatim>\<open>check_low_items\<close>\<close>

text \<open>
  C9. For a threshold that is a non-negative integer, on a mapping whose quantities are
  integers, \<^verbatim>\<open>check_low_items\<close> returns a list whose elements are exactly the items with
  a quantity strictly below the threshold. For a threshold that is not a non-negative
  integer it returns the empty list and raises nothing, whatever the inventory holds.
\<close>

theorem check_low_items_exact:
  "(is_int threshold \<and> 0 \<le> int_of threshold \<longrightarrow>
      stock_data s = PDict d \<longrightarrow> list_all (\<lambda>(k, v). is_int v) d \<longrightarrow> distinct (map fst d) \<longrightarrow>
      (\<exists>xs. check_low_items s threshold = Inr xs
           \<and> set xs = {k. \<exists>v. map_of d k = Some v \<and> int_of v < int_of threshold}))
   \<and> (\<not> (is_int threshold \<and> 0 \<le> int_of threshold) \<longrightarrow> check_low_items s threshold = Inr [])"
proof (intro conjI impI)
  assume a: "is_int threshold \<and> 0 \<le> int_of threshold" "stock_data s = PDict d"
    "list_all (\<lambda>(k, v). is_int v) d" "distinct (map fst d)"
  have "check_low_items s threshold
        = Inr (map fst (filter (\<lambda>(k, v). int_of v < int_of threshold) d))"
    using a low_loop_filter [of d "int_of threshold" "[]"] by (simp add: check_low_items_def)
  moreover have "set (map fst (filter (\<lambda>(k, v). int_of v < int_of threshold) d))
                 = {k. \<exists>v. map_of d k = Some v \<and> int_of v < int_of threshold}"
    using a(4) by (auto simp: image_iff)
  ultimately show "\<exists>xs. check_low_items s threshold = Inr xs
                 \<and> set xs = {k. \<exists>v. map_of d k = Some v \<and> int_of v < int_of threshold}"
    by simp
next
  assume "\<not> (is_int threshold \<and> 0 \<le> int_of threshold)"
  then show "check_low_items s threshold = Inr []"
    by (auto simp: check_low_items_def)
qed

theorem check_low_items_exact_witness:
  "(\<exists>xs. check_low_items \<lparr>stock_data = PDict [(''apple'', PInt 7), (''banana'', PInt 3)], logs = []\<rparr>
            (PInt 5) = Inr xs
        \<and> set xs = {k. \<exists>v. map_of [(''apple'', PInt 7), (''banana'', PInt 3)] k = Some v
                          \<and> int_of v < 5})
   \<and> check_low_items \<lparr>stock_data = PDict [(''apple'', PInt 7), (''banana'', PInt 3)], logs = []\<rparr>
       (PInt (-1)) = Inr []
   \<and> check_low_items \<lparr>stock_data = PDict [(''apple'', PInt 7), (''banana'', PInt 3)], logs = []\<rparr>
       (PStr ''5'') = Inr []"
  using check_low_items_exact [of "PInt 5"
      "\<lparr>stock_data = PDict [(''apple'', PInt 7), (''banana'', PInt 3)], logs = []\<rparr>"
      "[(''apple'', PInt 7), (''banana'', PInt 3)]"]
    check_low_items_exact [of "PInt (-1)"
      "\<lparr>stock_data = PDict [(''apple'', PInt 7), (''banana'', PInt 3)], logs = []\<rparr>" "[]"]
    check_low_items_exact [of "PStr ''5''"
      "\<lparr>stock_data = PDict [(''apple'', PInt 7), (''banana'', PInt 3)], logs = []\<rparr>" "[]"]
  by simp

subsection \<open>Methods on a mapping that holds something else than integers\<close>

lemma int_stock_dict:
  "int_stock x \<Longrightarrow> \<exists>d. x = PDict d \<and> list_all (\<lambda>(k, v). is_int v) d"
  by (cases x) auto

lemma map_of_is_int:
  "list_all (\<lambda>(k, v). is_int v) d \<Longrightarrow> map_of d k = Some v \<Longrightarrow> is_int v"
  by (induction d) (auto split: if_splits)

lemma print_loop_int:
  "list_all (\<lambda>(k, v). is_int v) d \<Longrightarrow> print_loop d = Inr ()"
proof (induction d)
  case Nil
  then show ?case by simp
next
  case (Cons p d)
  obtain k v where p: "p = (k, v)" by (cases p)
  with Cons show ?case by (cases v) auto
qed

text \<open>
  As long as the mapping is a dictionary of integers, no method that works on it lets
  an exception out.
\<close>

lemma no_exception_on_int_stock:
  assumes "int_stock (stock_data s)"
  shows "raised (snd (add_item now s item qty)) = None"
    and "raised (snd (remove_item s item qty)) = None"
    and "raised (get_qty s item) = None"
    and "raised (check_low_items s threshold) = None"
    and "raised (print_data s) = None"
proof -
  obtain d where d: "stock_data s = PDict d" "list_all (\<lambda>(k, v). is_int v) d"
    using assms int_stock_dict by blast
  have g: "is_int (dict_get d k (PInt 0))" for k
    using map_of_is_int [OF d(2)] by (auto simp: dict_get_def split: option.splits)
  show "raised (snd (add_item now s item qty)) = None"
    using d g [of "str_of item"] by (simp add: add_item_def py_add_int_def)
  show "raised (snd (remove_item s item qty)) = None"
    using d map_of_is_int [OF d(2)]
    by (auto simp: remove_item_def remove_body_def py_sub_int_def py_le_int_def Let_def
        split: option.splits sum.splits bool.splits)
  show "raised (get_qty s item) = None"
    using d by (simp add: get_qty_def)
  show "raised (check_low_items s threshold) = None"
    using d low_loop_filter [OF d(2)] by (simp add: check_low_items_def)
  show "raised (print_data s) = None"
    using d print_loop_int [OF d(2)] by (simp add: print_data_def)
qed

text \<open>
  \<^verbatim>\<open>remove_item\<close> lets no exception out on any inventory: its \<^verbatim>\<open>try\<close> block only
  raises \<^verbatim>\<open>TypeError\<close> or \<^verbatim>\<open>KeyError\<close>, and both are caught.
\<close>

lemma remove_body_raises:
  "remove_body s k q = (s', Inl e) \<Longrightarrow> e = TypeError \<or> e = KeyError"
  by (cases "stock_data s")
    (auto simp: remove_body_def py_sub_int_def py_le_int_def Let_def
      split: sum.splits bool.splits option.splits if_splits)

lemma remove_item_never_raises: "raised (snd (remove_item s item qty)) = None"
  using remove_body_raises [of s "str_of item" "int_of qty"]
  by (auto simp: remove_item_def split: prod.splits sum.splits)

lemma low_loop_raises:
  "\<exists>p \<in> set d. \<not> is_int (snd p) \<Longrightarrow> low_loop d t acc = Inl TypeError"
proof (induction d arbitrary: acc)
  case Nil
  then show ?case by simp
next
  case (Cons p d)
  obtain k v where p: "p = (k, v)" by (cases p)
  show ?case
  proof (cases "is_int v")
    case True
    with Cons.prems p have "\<exists>q \<in> set d. \<not> is_int (snd q)" by auto
    then have "low_loop d t a = Inl TypeError" for a
      by (rule Cons.IH)
    with True p show ?thesis by (simp add: py_lt_int_def split: bool.splits)
  next
    case False
    with p show ?thesis by (simp add: py_lt_int_def)
  qed
qed

text \<open>
  C2. The claim does not hold of the code. \<^verbatim>\<open>load_data\<close> installs the document of
  the file as it is. Once the mapping holds \<open>item\<close> with a value that is not an integer,
  \<^verbatim>\<open>add_item\<close> with valid arguments raises \<^verbatim>\<open>TypeError\<close> past its boundary and so
  does \<^verbatim>\<open>check_low_items\<close> with a valid threshold, while \<^verbatim>\<open>remove_item\<close> with the
  same arguments catches the \<^verbatim>\<open>TypeError\<close> and returns \<^verbatim>\<open>False\<close>.
\<close>

theorem stored_non_integer_raises:
  assumes "stock_data s = PDict d" and "map_of d item = Some v" and "\<not> is_int v"
    and "item \<noteq> []" and "is_int qty" and "0 < int_of qty"
    and "is_int threshold" and "0 \<le> int_of threshold"
  shows "add_item now s (PStr item) qty = (s, Inl TypeError)
         \<and> check_low_items s threshold = Inl TypeError
         \<and> remove_item s (PStr item) qty = (s, Inr False)"
proof -
  have "(item, v) \<in> set d"
    using assms(2) by (rule map_of_SomeD)
  then have "\<exists>p \<in> set d. \<not> is_int (snd p)"
    using assms(3) by force
  then have "low_loop d (int_of threshold) [] = Inl TypeError"
    by (rule low_loop_raises)
  then show ?thesis
    using assms
    by (simp add: add_item_def dict_get_def py_add_int_def check_low_items_def
        remove_item_def remove_body_def py_sub_int_def)
qed

theorem stored_non_integer_raises_witness:
  "load_data (empty_world\<lparr>files := (files empty_world)
        (''inventory.json'' := Doc (PDict [(''apple'', PStr ''ten'')]))\<rparr>) init ''inventory.json''
     = (init\<lparr>stock_data := PDict [(''apple'', PStr ''ten'')]\<rparr>, Inr True)
   \<and> add_item ''t'' (init\<lparr>stock_data := PDict [(''apple'', PStr ''ten'')]\<rparr>) (PStr ''apple'') (PInt 1)
     = (init\<lparr>stock_data := PDict [(''apple'', PStr ''ten'')]\<rparr>, Inl TypeError)
   \<and> check_low_items (init\<lparr>stock_data := PDict [(''apple'', PStr ''ten'')]\<rparr>) (PInt 5)
     = Inl TypeError
   \<and> remove_item (init\<lparr>stock_data := PDict [(''apple'', PStr ''ten'')]\<rparr>) (PStr ''apple'') (PInt 1)
     = (init\<lparr>stock_data := PDict [(''apple'', PStr ''ten'')]\<rparr>, Inr False)"
  using stored_non_integer_raises [of "init\<lparr>stock_data := PDict [(''apple'', PStr ''ten'')]\<rparr>"
      "[(''apple'', PStr ''ten'')]" "''apple''" "PStr ''ten''" "PInt 1" "PInt 5" "''t''"]
  by (simp add: load_data_def read_json_def empty_world_def)

subsection \<open>The invariant on quantities\<close>

lemma list_all_update:
  "list_all P d \<Longrightarrow> P (k, v) \<Longrightarrow> list_all P (AList.update k v d)"
  by (induction d) auto

lemma list_all_delete:
  "list_all P d \<Longrightarrow> list_all P (AList.delete k d)"
  by (induction d) auto

lemma positive_qty_int: "positive_qty v \<Longrightarrow> is_int v \<and> 0 < int_of v"
  by (cases v) auto

lemma map_of_positive:
  "list_all (\<lambda>(k, v). positive_qty v) d \<Longrightarrow> map_of d k = Some v \<Longrightarrow> positive_qty v"
  by (induction d) (auto split: if_splits)

lemma positive_stock_dict:
  "positive_stock x \<Longrightarrow> \<exists>d. x = PDict d \<and> list_all (\<lambda>(k, v). positive_qty v) d"
  by (cases x) auto

lemma add_item_positive:
  assumes "positive_stock (stock_data s)"
  shows "positive_stock (stock_data (fst (add_item now s item qty)))"
proof -
  obtain d where d: "stock_data s = PDict d" "list_all (\<lambda>(k, v). positive_qty v) d"
    using assms positive_stock_dict by blast
  have g: "is_int (dict_get d k (PInt 0)) \<and> 0 \<le> int_of (dict_get d k (PInt 0))" for k
    using map_of_positive [OF d(2)] positive_qty_int
    by (fastforce simp: dict_get_def split: option.splits)
  show ?thesis
    using d g [of "str_of item"]
    by (auto simp: add_item_def py_add_int_def intro!: list_all_update)
qed

lemma remove_item_positive:
  assumes "positive_stock (stock_data s)"
  shows "positive_stock (stock_data (fst (remove_item s item qty)))"
proof -
  obtain d where d: "stock_data s = PDict d" "list_all (\<lambda>(k, v). positive_qty v) d"
    using assms positive_stock_dict by blast
  show ?thesis
    using d
    by (auto simp: remove_item_def remove_body_def py_sub_int_def py_le_int_def Let_def
        delete_update_same split: option.splits sum.splits bool.splits
        intro!: list_all_update list_all_delete)
qed

lemma load_data_positive:
  assumes "files_positive w" and "positive_stock (stock_data s)"
  shows "positive_stock (stock_data (fst (load_data w s file)))"
  using assms
  by (auto simp: load_data_def read_json_def files_positive_def split: fnode.splits)

lemma save_data_positive:
  assumes "files_positive w" and "positive_stock (stock_data s)"
  shows "files_positive (fst (save_data w s file))"
  using assms
  by (auto simp: save_data_def write_json_def files_positive_def)

lemma step_positive:
  assumes "files_positive (fst ws)" and "positive_stock (stock_data (snd ws))"
  shows "files_positive (fst (fst (step x ws)))
         \<and> positive_stock (stock_data (snd (fst (step x ws))))"
proof (cases ws)
  case (Pair w s)
  with assms show ?thesis
    using add_item_positive [of s] remove_item_positive [of s] load_data_positive [of w s]
      save_data_positive [of w s]
    by (cases x) (simp_all add: case_prod_beta)
qed

lemma run_positive:
  "files_positive (fst ws) \<Longrightarrow> positive_stock (stock_data (snd ws)) \<Longrightarrow>
   files_positive (fst (fst (run ops ws)))
   \<and> positive_stock (stock_data (snd (fst (run ops ws))))"
proof (induction ops arbitrary: ws)
  case Nil
  then show ?case by simp
next
  case (Cons x xs)
  have st: "files_positive (fst (fst (step x ws)))
            \<and> positive_stock (stock_data (snd (fst (step x ws))))"
    using step_positive Cons.prems by blast
  show ?case
  proof (cases "step x ws")
    case (Pair ws' r)
    with st Cons.IH [of ws'] show ?thesis
      by (cases r) auto
  qed
qed

text \<open>
  C1, as the claim states it, fails: \<^verbatim>\<open>load_data\<close> installs the document of the file
  without looking at it, so one \<^verbatim>\<open>load_data\<close> of a file that maps \<^verbatim>\<open>apple\<close> to -3
  leaves a quantity below 0 in the mapping of an inventory that started empty.
\<close>

theorem quantities_positive_counterexample:
  "\<not> positive_stock (stock_data (snd (fst (run [Load ''inventory.json'']
       (empty_world\<lparr>files := (files empty_world)
          (''inventory.json'' := Doc (PDict [(''apple'', PInt (-3))]))\<rparr>, init)))))"
  by (simp add: load_data_def read_json_def empty_world_def)

text \<open>
  C1, amended. In a file system whose JSON documents are all mappings of positive
  integer quantities, after every sequence of public operations that starts from the
  empty inventory, the mapping is a dictionary and every quantity in it is a positive
  integer. (The documents the sequence itself saves are such mappings, so the condition
  is on the files that are there at the start.)
\<close>

theorem quantities_positive:
  assumes "files_positive w"
  shows "positive_stock (stock_data (snd (fst (run ops (w, init)))))"
  using run_positive [of "(w, init)" ops] assms by (simp add: init_def)

theorem quantities_positive_witness:
  "files_positive empty_world
   \<and> stock_data (snd (fst (run [Add ''t'' (PStr ''apple'') (PInt 10),
            Add ''t'' (PStr ''apple'') (PInt (-2)), Remove (PStr ''apple'') (PInt 3),
            Save ''inventory.json'', Remove (PStr ''apple'') (PInt 15),
            GetQty (PStr ''apple''), CheckLow (PInt 5), PrintData, Load ''inventory.json'']
           (empty_world, init)))) = PDict [(''apple'', PInt 7)]
   \<and> positive_stock (stock_data (snd (fst (run [Add ''t'' (PStr ''apple'') (PInt 10),
            Add ''t'' (PStr ''apple'') (PInt (-2)), Remove (PStr ''apple'') (PInt 3),
            Save ''inventory.json'', Remove (PStr ''apple'') (PInt 15),
            GetQty (PStr ''apple''), CheckLow (PInt 5), PrintData, Load ''inventory.json'']
           (empty_world, init)))))"
proof -
  have h: "files_positive empty_world"
    by (simp add: files_positive_def empty_world_def)
  have r: "stock_data (snd (fst (run [Add ''t'' (PStr ''apple'') (PInt 10),
            Add ''t'' (PStr ''apple'') (PInt (-2)), Remove (PStr ''apple'') (PInt 3),
            Save ''inventory.json'', Remove (PStr ''apple'') (PInt 15),
            GetQty (PStr ''apple''), CheckLow (PInt 5), PrintData, Load ''inventory.json'']
           (empty_world, init)))) = PDict [(''apple'', PInt 7)]"
    by (simp add: add_item_def remove_item_def remove_body_def get_qty_def check_low_items_def
        print_data_def load_data_def save_data_def read_json_def write_json_def init_def
        empty_world_def dict_get_def py_add_int_def py_sub_int_def py_le_int_def py_lt_int_def
        Let_def)
  show ?thesis
    using h r quantities_positive [OF h] by blast
qed

end
